theory Spec2Isabelle
  imports Main "HOL-Library.Word"
begin

section \<open>TVirtualMutex.h: values, outcomes and the program state\<close>

text \<open>
  A \<^verbatim>\<open>TVirtualMutex *\<close> is an address or the null pointer; \<^verbatim>\<open>Int_t\<close> is a
  32-bit integer (read as signed by \<open>sint\<close>). A call either returns a value, leaves by a C++ exception, never
  returns (a \<^verbatim>\<open>Lock()\<close> that waits for ever), or ends the process
  (\<^verbatim>\<open>std::terminate\<close> when an exception leaves a destructor, or a call through
  a null pointer).
\<close>

type_synonym addr = nat
type_synonym ptr = "addr option"
type_synonym Int_t = "32 word"
type_synonym vname = string

datatype exn = Exception nat

datatype 'a outcome = Returns 'a | Throws exn | Blocks | Crashes

text \<open>
  The program state the header reads and writes: the mutex objects (their hold state is
  opaque, type \<open>'m\<close>; the object at address \<open>a\<close> is \<open>heap w ! a\<close>, and
  \<^verbatim>\<open>new\<close> appends), the global \<^verbatim>\<open>gGlobalMutex\<close>, and the other
  \<^verbatim>\<open>TVirtualMutex *\<close> variables of the program, which are the lvalues handed to
  \<^verbatim>\<open>R__LOCKGUARD2\<close>.
\<close>

record 'm world =
  heap :: "'m list"
  gGlobalMutex :: ptr
  gvars :: "vname \<Rightarrow> ptr"

text \<open>
  \<^verbatim>\<open>class TVirtualMutex\<close>: every operation is pure virtual, so the class is the
  table of its implementations. Each takes the object it is called on and may change any
  part of the program state. \<^verbatim>\<open>std::unique_ptr<State>\<close> is \<open>'st option\<close>,
  with \<open>None\<close> the empty pointer.
\<close>

record ('m, 'st) TVirtualMutex =
  Lock :: "addr \<Rightarrow> 'm world \<Rightarrow> Int_t outcome \<times> 'm world"
  TryLock :: "addr \<Rightarrow> 'm world \<Rightarrow> Int_t outcome \<times> 'm world"
  UnLock :: "addr \<Rightarrow> 'm world \<Rightarrow> Int_t outcome \<times> 'm world"
  CleanUp :: "addr \<Rightarrow> 'm world \<Rightarrow> Int_t outcome \<times> 'm world"
  Factory :: "addr \<Rightarrow> bool \<Rightarrow> 'm world \<Rightarrow> ptr outcome \<times> 'm world"
  Reset :: "addr \<Rightarrow> 'm world \<Rightarrow> 'st option outcome \<times> 'm world"
  Restore :: "addr \<Rightarrow> 'st option \<Rightarrow> 'm world \<Rightarrow> unit outcome \<times> 'm world"

text \<open>
  The calls that the guards and macros of this header issue are logged, in order, beside
  the program state; code of the protected section works on the program state alone, so
  the log holds exactly what the header's own code called.
\<close>

datatype 'st event =
    EvLock addr
  | EvUnLock addr
  | EvFactory addr bool
  | EvReset addr
  | EvRestore addr "'st option"
  | EvReadLock nat
  | EvReadUnLock nat
  | EvWriteLock nat
  | EvWriteUnLock nat

type_synonym ('m, 'st) config = "'m world \<times> 'st event list"

definition call_Lock ::
  "('m, 'st) TVirtualMutex \<Rightarrow> addr \<Rightarrow> ('m, 'st) config \<Rightarrow> Int_t outcome \<times> ('m, 'st) config" where
  "call_Lock V a c = (case Lock V a (fst c) of (r, w') \<Rightarrow> (r, (w', snd c @ [EvLock a])))"

definition call_UnLock ::
  "('m, 'st) TVirtualMutex \<Rightarrow> addr \<Rightarrow> ('m, 'st) config \<Rightarrow> Int_t outcome \<times> ('m, 'st) config" where
  "call_UnLock V a c = (case UnLock V a (fst c) of (r, w') \<Rightarrow> (r, (w', snd c @ [EvUnLock a])))"

definition call_Factory ::
  "('m, 'st) TVirtualMutex \<Rightarrow> addr \<Rightarrow> bool \<Rightarrow> ('m, 'st) config \<Rightarrow> ptr outcome \<times> ('m, 'st) config" where
  "call_Factory V a recursive c =
     (case Factory V a recursive (fst c) of (r, w') \<Rightarrow> (r, (w', snd c @ [EvFactory a recursive])))"

definition call_Reset ::
  "('m, 'st) TVirtualMutex \<Rightarrow> addr \<Rightarrow> ('m, 'st) config \<Rightarrow> 'st option outcome \<times> ('m, 'st) config" where
  "call_Reset V a c = (case Reset V a (fst c) of (r, w') \<Rightarrow> (r, (w', snd c @ [EvReset a])))"

definition call_Restore ::
  "('m, 'st) TVirtualMutex \<Rightarrow> addr \<Rightarrow> 'st option \<Rightarrow> ('m, 'st) config \<Rightarrow> unit outcome \<times> ('m, 'st) config" where
  "call_Restore V a s c =
     (case Restore V a s (fst c) of (r, w') \<Rightarrow> (r, (w', snd c @ [EvRestore a s])))"

section \<open>TLockGuard\<close>

record TLockGuard =
  fMutex :: ptr

text \<open>
  \<^verbatim>\<open>TLockGuard(TVirtualMutex *mutex) : fMutex(mutex) { if (fMutex) fMutex->Lock(); }\<close>
  The status that \<^verbatim>\<open>Lock()\<close> returns is dropped. When \<^verbatim>\<open>Lock()\<close> does not
  return, no guard object comes to exist.
\<close>

definition TLockGuard_ctor ::
  "('m, 'st) TVirtualMutex \<Rightarrow> ptr \<Rightarrow> ('m, 'st) config \<Rightarrow> TLockGuard outcome \<times> ('m, 'st) config" where
  "TLockGuard_ctor V mutex c =
     (case mutex of
        None \<Rightarrow> (Returns \<lparr>fMutex = None\<rparr>, c)
      | Some a \<Rightarrow>
          (case call_Lock V a c of
             (Returns s, c') \<Rightarrow> (Returns \<lparr>fMutex = Some a\<rparr>, c')
           | (Throws e, c') \<Rightarrow> (Throws e, c')
           | (Blocks, c') \<Rightarrow> (Blocks, c')
           | (Crashes, c') \<Rightarrow> (Crashes, c')))"

text \<open>
  \<^verbatim>\<open>Int_t UnLock() { if (!fMutex) return 0; auto tmp = fMutex; fMutex = 0; return tmp->UnLock(); }\<close>
  The guard after the call is returned next to the outcome: the field is already cleared
  when \<^verbatim>\<open>tmp->UnLock()\<close> runs, whatever its outcome.
\<close>

definition TLockGuard_UnLock ::
  "('m, 'st) TVirtualMutex \<Rightarrow> TLockGuard \<Rightarrow> ('m, 'st) config
     \<Rightarrow> Int_t outcome \<times> TLockGuard \<times> ('m, 'st) config" where
  "TLockGuard_UnLock V g c =
     (case fMutex g of
        None \<Rightarrow> (Returns 0, g, c)
      | Some tmp \<Rightarrow>
          (let g' = g\<lparr>fMutex := None\<rparr>
           in case call_UnLock V tmp c of (r, c') \<Rightarrow> (r, g', c')))"

text \<open>
  \<^verbatim>\<open>~TLockGuard() { if (fMutex) fMutex->UnLock(); }\<close>
  The status is dropped. The destructor is implicitly \<^verbatim>\<open>noexcept\<close>, so an
  exception out of \<^verbatim>\<open>UnLock()\<close> ends the process.
\<close>

definition TLockGuard_dtor ::
  "('m, 'st) TVirtualMutex \<Rightarrow> TLockGuard \<Rightarrow> ('m, 'st) config \<Rightarrow> unit outcome \<times> ('m, 'st) config" where
  "TLockGuard_dtor V g c =
     (case fMutex g of
        None \<Rightarrow> (Returns (), c)
      | Some a \<Rightarrow>
          (case call_UnLock V a c of
             (Returns s, c') \<Rightarrow> (Returns (), c')
           | (Throws e, c') \<Rightarrow> (Crashes, c')
           | (Blocks, c') \<Rightarrow> (Blocks, c')
           | (Crashes, c') \<Rightarrow> (Crashes, c')))"

text \<open>
  The guarded block \<^verbatim>\<open>{ TLockGuard guard(mutex); ... }\<close>. Its statements are
  either \<^verbatim>\<open>guard.UnLock()\<close> (what \<^verbatim>\<open>R__LOCKGUARD_UNLOCK\<close> expands to) or
  other code, which cannot reach the private \<^verbatim>\<open>fMutex\<close> and may leave by an
  exception. Control leaves the block when the statements return or throw; then, and only
  then, the destructor runs.
\<close>

datatype 'm stmt = R__LOCKGUARD_UNLOCK | Code "'m world \<Rightarrow> unit outcome \<times> 'm world"

fun run_body ::
  "('m, 'st) TVirtualMutex \<Rightarrow> 'm stmt list \<Rightarrow> TLockGuard \<Rightarrow> ('m, 'st) config
     \<Rightarrow> unit outcome \<times> TLockGuard \<times> ('m, 'st) config" where
  "run_body V [] g c = (Returns (), g, c)"
| "run_body V (R__LOCKGUARD_UNLOCK # ss) g c =
     (case TLockGuard_UnLock V g c of
        (Returns s, g', c') \<Rightarrow> run_body V ss g' c'
      | (Throws e, g', c') \<Rightarrow> (Throws e, g', c')
      | (Blocks, g', c') \<Rightarrow> (Blocks, g', c')
      | (Crashes, g', c') \<Rightarrow> (Crashes, g', c'))"
| "run_body V (Code f # ss) g c =
     (case f (fst c) of
        (Returns u, w') \<Rightarrow> run_body V ss g (w', snd c)
      | (Throws e, w') \<Rightarrow> (Throws e, g, (w', snd c))
      | (Blocks, w') \<Rightarrow> (Blocks, g, (w', snd c))
      | (Crashes, w') \<Rightarrow> (Crashes, g, (w', snd c)))"

fun leaves :: "'a outcome \<Rightarrow> bool" where
  "leaves (Returns v) = True"
| "leaves (Throws e) = True"
| "leaves Blocks = False"
| "leaves Crashes = False"

fun after_dtor :: "'a outcome \<Rightarrow> unit outcome \<Rightarrow> 'a outcome" where
  "after_dtor r (Returns u) = r"
| "after_dtor r (Throws e) = Throws e"
| "after_dtor r Blocks = Blocks"
| "after_dtor r Crashes = Crashes"

definition TLockGuard_scope ::
  "('m, 'st) TVirtualMutex \<Rightarrow> ptr \<Rightarrow> 'm stmt list \<Rightarrow> ('m, 'st) config
     \<Rightarrow> unit outcome \<times> ('m, 'st) config" where
  "TLockGuard_scope V mutex body c =
     (case TLockGuard_ctor V mutex c of
        (Returns g, c1) \<Rightarrow>
          (case run_body V body g c1 of
             (r, g', c2) \<Rightarrow>
               if leaves r
               then (case TLockGuard_dtor V g' c2 of (d, c3) \<Rightarrow> (after_dtor r d, c3))
               else (r, c2))
      | (Throws e, c1) \<Rightarrow> (Throws e, c1)
      | (Blocks, c1) \<Rightarrow> (Blocks, c1)
      | (Crashes, c1) \<Rightarrow> (Crashes, c1))"

section \<open>TLockSuspend\<close>

record 'st TLockSuspend =
  fMutex :: ptr
  fState :: "'st option"

text \<open>
  \<^verbatim>\<open>TLockSuspend(TVirtualMutex *mutex) : fMutex(mutex) { if (fMutex) fState = mutex->Reset(); }\<close>
  \<^verbatim>\<open>fState\<close> starts as the empty pointer.
\<close>

definition TLockSuspend_ctor ::
  "('m, 'st) TVirtualMutex \<Rightarrow> ptr \<Rightarrow> ('m, 'st) config
     \<Rightarrow> 'st TLockSuspend outcome \<times> ('m, 'st) config" where
  "TLockSuspend_ctor V mutex c =
     (case mutex of
        None \<Rightarrow> (Returns \<lparr>fMutex = None, fState = None\<rparr>, c)
      | Some a \<Rightarrow>
          (case call_Reset V a c of
             (Returns s, c') \<Rightarrow> (Returns \<lparr>fMutex = Some a, fState = s\<rparr>, c')
           | (Throws e, c') \<Rightarrow> (Throws e, c')
           | (Blocks, c') \<Rightarrow> (Blocks, c')
           | (Crashes, c') \<Rightarrow> (Crashes, c')))"

text \<open>
  \<^verbatim>\<open>~TLockSuspend() { if (fMutex) fMutex->Restore(std::move(fState)); }\<close>
  Implicitly \<^verbatim>\<open>noexcept\<close>, as the other destructor.
\<close>

definition TLockSuspend_dtor ::
  "('m, 'st) TVirtualMutex \<Rightarrow> 'st TLockSuspend \<Rightarrow> ('m, 'st) config
     \<Rightarrow> unit outcome \<times> ('m, 'st) config" where
  "TLockSuspend_dtor V g c =
     (case fMutex g of
        None \<Rightarrow> (Returns (), c)
      | Some a \<Rightarrow>
          (case call_Restore V a (fState g) c of
             (Returns u, c') \<Rightarrow> (Returns (), c')
           | (Throws e, c') \<Rightarrow> (Crashes, c')
           | (Blocks, c') \<Rightarrow> (Blocks, c')
           | (Crashes, c') \<Rightarrow> (Crashes, c')))"

text \<open>
  The block \<^verbatim>\<open>{ TLockSuspend guard(mutex); ... }\<close>. The class has no method, so the
  block's code is a single transformer of the program state.
\<close>

definition TLockSuspend_scope ::
  "('m, 'st) TVirtualMutex \<Rightarrow> ptr \<Rightarrow> ('m world \<Rightarrow> unit outcome \<times> 'm world)
     \<Rightarrow> ('m, 'st) config \<Rightarrow> unit outcome \<times> ('m, 'st) config" where
  "TLockSuspend_scope V mutex body c =
     (case TLockSuspend_ctor V mutex c of
        (Returns g, c1) \<Rightarrow>
          (case body (fst c1) of
             (r, w2) \<Rightarrow>
               if leaves r
               then (case TLockSuspend_dtor V g (w2, snd c1) of (d, c3) \<Rightarrow> (after_dtor r d, c3))
               else (r, (w2, snd c1)))
      | (Throws e, c1) \<Rightarrow> (Throws e, c1)
      | (Blocks, c1) \<Rightarrow> (Blocks, c1)
      | (Crashes, c1) \<Rightarrow> (Crashes, c1))"

section \<open>The macros\<close>

text \<open>
  Sequencing of calls: what follows a call runs only when the call returns. A call
  through a null pointer ends the process.
\<close>

definition then_do ::
  "'a outcome \<times> 's \<Rightarrow> ('a \<Rightarrow> 's \<Rightarrow> 'b outcome \<times> 's) \<Rightarrow> 'b outcome \<times> 's" where
  "then_do m k =
     (case m of
        (Returns v, s) \<Rightarrow> k v s
      | (Throws e, s) \<Rightarrow> (Throws e, s)
      | (Blocks, s) \<Rightarrow> (Blocks, s)
      | (Crashes, s) \<Rightarrow> (Crashes, s))"

definition via :: "ptr \<Rightarrow> (addr \<Rightarrow> 's \<Rightarrow> 'a outcome \<times> 's) \<Rightarrow> 's \<Rightarrow> 'a outcome \<times> 's" where
  "via p f s = (case p of None \<Rightarrow> (Crashes, s) | Some a \<Rightarrow> f a s)"

definition assign :: "vname \<Rightarrow> ptr \<Rightarrow> ('m, 'st) config \<Rightarrow> ('m, 'st) config" where
  "assign x p c = ((fst c)\<lparr>gvars := (gvars (fst c))(x := p)\<rparr>, snd c)"

text \<open>
  \<^verbatim>\<open>#define R__LOCKGUARD(mutex) TLockGuard _R__UNIQUE_(R__guard)(mutex)\<close> when
  \<^verbatim>\<open>_REENTRANT\<close> or \<^verbatim>\<open>WIN32\<close> is defined (\<open>reentrant\<close>), and
  \<^verbatim>\<open>(void)mutex; { }\<close> otherwise, which declares no guard.
\<close>

definition R__LOCKGUARD ::
  "bool \<Rightarrow> ('m, 'st) TVirtualMutex \<Rightarrow> ptr \<Rightarrow> ('m, 'st) config
     \<Rightarrow> TLockGuard option outcome \<times> ('m, 'st) config" where
  "R__LOCKGUARD reentrant V mutex c =
     (if reentrant
      then then_do (TLockGuard_ctor V mutex c) (\<lambda>g c'. (Returns (Some g), c'))
      else (Returns None, c))"

text \<open>
  \<^verbatim>\<open>
  #define R__LOCKGUARD2(mutex)
     if (gGlobalMutex && !mutex) {
        gGlobalMutex->Lock();
        if (!mutex)
           mutex = gGlobalMutex->Factory(kTRUE);
        gGlobalMutex->UnLock();
     }
     R__LOCKGUARD(mutex)
  \<close>
  The argument is an lvalue, here the variable \<open>mutex\<close> of the program state. Both it and
  \<^verbatim>\<open>gGlobalMutex\<close> are read again at each use, from the state the preceding call
  left.
\<close>

definition R__LOCKGUARD2 ::
  "bool \<Rightarrow> ('m, 'st) TVirtualMutex \<Rightarrow> vname \<Rightarrow> ('m, 'st) config
     \<Rightarrow> TLockGuard option outcome \<times> ('m, 'st) config" where
  "R__LOCKGUARD2 reentrant V mutex c =
     (if reentrant
      then
        then_do
          (if gGlobalMutex (fst c) \<noteq> None \<and> gvars (fst c) mutex = None
           then
             then_do (via (gGlobalMutex (fst c)) (call_Lock V) c) (\<lambda>s1 c1.
             then_do
               (if gvars (fst c1) mutex = None
                then then_do (via (gGlobalMutex (fst c1)) (\<lambda>g. call_Factory V g True) c1)
                       (\<lambda>p c2. (Returns (), assign mutex p c2))
                else (Returns (), c1)) (\<lambda>u c2.
             then_do (via (gGlobalMutex (fst c2)) (call_UnLock V) c2) (\<lambda>s3 c3.
             (Returns (), c3))))
           else (Returns (), c))
          (\<lambda>u c'. R__LOCKGUARD reentrant V (gvars (fst c') mutex) c')
      else (Returns None, c))"

text \<open>
  The read/write-lock helpers. The lock's class is not part of this header: the macro
  argument is any object with the four methods, here a record of them and a name for the
  log. \<^verbatim>\<open>ROOT::Internal::IsParTreeProcessingEnabled()\<close> is external too and is a
  parameter, as is whether \<^verbatim>\<open>R__USE_IMT\<close> is defined.
  \<^verbatim>\<open>
  #ifdef R__USE_IMT
  #define R__RWLOCK_ACQUIRE_READ(rwlock)  if (ROOT::Internal::IsParTreeProcessingEnabled()) rwlock.ReadLock();
  ...
  #else
  #define R__RWLOCK_ACQUIRE_READ(rwlock)  { }
  \<close>
\<close>

record 'm rwlock =
  rw_name :: nat
  ReadLock :: "'m world \<Rightarrow> unit outcome \<times> 'm world"
  ReadUnLock :: "'m world \<Rightarrow> unit outcome \<times> 'm world"
  WriteLock :: "'m world \<Rightarrow> unit outcome \<times> 'm world"
  WriteUnLock :: "'m world \<Rightarrow> unit outcome \<times> 'm world"

definition rw_call ::
  "('m world \<Rightarrow> unit outcome \<times> 'm world) \<Rightarrow> 'st event \<Rightarrow> ('m, 'st) config
     \<Rightarrow> unit outcome \<times> ('m, 'st) config" where
  "rw_call f ev c = (case f (fst c) of (r, w') \<Rightarrow> (r, (w', snd c @ [ev])))"

definition R__RWLOCK_ACQUIRE_READ ::
  "bool \<Rightarrow> ('m world \<Rightarrow> bool) \<Rightarrow> 'm rwlock \<Rightarrow> ('m, 'st) config \<Rightarrow> unit outcome \<times> ('m, 'st) config" where
  "R__RWLOCK_ACQUIRE_READ R__USE_IMT IsParTreeProcessingEnabled rw c =
     (if R__USE_IMT
      then (if IsParTreeProcessingEnabled (fst c)
            then rw_call (ReadLock rw) (EvReadLock (rw_name rw)) c
            else (Returns (), c))
      else (Returns (), c))"

definition R__RWLOCK_RELEASE_READ ::
  "bool \<Rightarrow> ('m world \<Rightarrow> bool) \<Rightarrow> 'm rwlock \<Rightarrow> ('m, 'st) config \<Rightarrow> unit outcome \<times> ('m, 'st) config" where
  "R__RWLOCK_RELEASE_READ R__USE_IMT IsParTreeProcessingEnabled rw c =
     (if R__USE_IMT
      then (if IsParTreeProcessingEnabled (fst c)
            then rw_call (ReadUnLock rw) (EvReadUnLock (rw_name rw)) c
            else (Returns (), c))
      else (Returns (), c))"

definition R__RWLOCK_ACQUIRE_WRITE ::
  "bool \<Rightarrow> ('m world \<Rightarrow> bool) \<Rightarrow> 'm rwlock \<Rightarrow> ('m, 'st) config \<Rightarrow> unit outcome \<times> ('m, 'st) config" where
  "R__RWLOCK_ACQUIRE_WRITE R__USE_IMT IsParTreeProcessingEnabled rw c =
     (if R__USE_IMT
      then (if IsParTreeProcessingEnabled (fst c)
            then rw_call (WriteLock rw) (EvWriteLock (rw_name rw)) c
            else (Returns (), c))
      else (Returns (), c))"

definition R__RWLOCK_RELEASE_WRITE ::
  "bool \<Rightarrow> ('m world \<Rightarrow> bool) \<Rightarrow> 'm rwlock \<Rightarrow> ('m, 'st) config \<Rightarrow> unit outcome \<times> ('m, 'st) config" where
  "R__RWLOCK_RELEASE_WRITE R__USE_IMT IsParTreeProcessingEnabled rw c =
     (if R__USE_IMT
      then (if IsParTreeProcessingEnabled (fst c)
            then rw_call (WriteUnLock rw) (EvWriteUnLock (rw_name rw)) c
            else (Returns (), c))
      else (Returns (), c))"

section \<open>The Lock contract of the specification\<close>

text \<open>
  The header declares the mutex operations and implements none of them. Where a
  property needs to know what a mutex does, the recursive lock that the specification
  describes is used: a lock is unheld (depth 0) or held by one thread to a depth.
\<close>

type_synonym thread = nat

record smutex =
  owner :: thread
  depth :: nat

definition available :: "thread \<Rightarrow> smutex \<Rightarrow> bool" where
  "available t m = (depth m = 0 \<or> owner m = t)"

definition held_by :: "thread \<Rightarrow> smutex \<Rightarrow> nat" where
  "held_by t m = (if owner m = t then depth m else 0)"

text \<open>
  Modelled from the spec: the implementation of \<^verbatim>\<open>TVirtualMutex::Lock\<close>, pure
  virtual in the header. "Blocks the calling thread until exclusive ownership is acquired;
  supports recursive acquisition by the same thread (hold depth increments); returns a
  status code." Thread \<open>t\<close> calls; status 0 is success.
\<close>

definition spec_Lock :: "thread \<Rightarrow> smutex \<Rightarrow> Int_t outcome \<times> smutex" where
  "spec_Lock t m =
     (if available t m then (Returns 0, \<lparr>owner = t, depth = Suc (depth m)\<rparr>) else (Blocks, m))"

text \<open>
  Modelled from the spec: the implementation of \<^verbatim>\<open>TVirtualMutex::TryLock\<close>, pure
  virtual in the header. "Attempts acquisition without blocking; returns success/failure
  instead of blocking." Failure is the status 1.
\<close>

definition spec_TryLock :: "thread \<Rightarrow> smutex \<Rightarrow> Int_t outcome \<times> smutex" where
  "spec_TryLock t m =
     (if available t m then (Returns 0, \<lparr>owner = t, depth = Suc (depth m)\<rparr>) else (Returns 1, m))"

text \<open>
  Modelled from the spec: the implementation of \<^verbatim>\<open>TVirtualMutex::UnLock\<close>, pure
  virtual in the header. "Releases one level of hold; decrements recursive depth; must
  only be called by the thread that holds the lock, once per matching lock()." A call
  without a matching lock is left undefined by the specification; here it changes nothing
  and reports status 1.
\<close>

definition spec_UnLock :: "thread \<Rightarrow> smutex \<Rightarrow> Int_t outcome \<times> smutex" where
  "spec_UnLock t m =
     (if owner m = t \<and> 0 < depth m then (Returns 0, m\<lparr>depth := depth m - 1\<rparr>)
      else (Returns 1, m))"

text \<open>
  Modelled from the spec: the implementation of \<^verbatim>\<open>TVirtualMutex::CleanUp\<close>, pure
  virtual in the header. "Backend-defined forced release/reset, idempotent from the
  caller's perspective."
\<close>

definition spec_CleanUp :: "thread \<Rightarrow> smutex \<Rightarrow> Int_t outcome \<times> smutex" where
  "spec_CleanUp t m = (Returns 0, if owner m = t then m\<lparr>depth := 0\<rparr> else m)"

text \<open>
  Modelled from the spec: the implementation of \<^verbatim>\<open>TVirtualMutex::Reset\<close>, pure
  virtual in the header. "Fully releases the lock regardless of current recursive hold
  depth, and returns a Hold-State Snapshot capturing that depth. Precondition: none; if
  the lock is unheld, the returned snapshot represents unheld." The snapshot is the depth
  to which the calling thread held the lock, as \<^verbatim>\<open>restore\<close> is said to
  re-establish "the previous acquisition depth held by the calling thread"; a lock that
  another thread holds is not the caller's to release and stays as it is.
\<close>

definition spec_Reset :: "thread \<Rightarrow> smutex \<Rightarrow> nat option outcome \<times> smutex" where
  "spec_Reset t m =
     (Returns (Some (held_by t m)), if owner m = t then m\<lparr>depth := 0\<rparr> else m)"

text \<open>
  Modelled from the spec: the implementation of \<^verbatim>\<open>TVirtualMutex::Restore\<close>, pure
  virtual in the header. "Given a snapshot previously produced by reset() on this same
  Lock, reacquires the lock to the exact depth the snapshot represents." A snapshot of
  depth 0 leaves nothing to reacquire; otherwise the call waits, like \<^verbatim>\<open>Lock\<close>,
  while another thread holds the lock. An empty snapshot pointer is never produced by
  \<open>spec_Reset\<close>; given one, the call changes nothing.
\<close>

definition spec_Restore :: "thread \<Rightarrow> nat option \<Rightarrow> smutex \<Rightarrow> unit outcome \<times> smutex" where
  "spec_Restore t s m =
     (case s of
        None \<Rightarrow> (Returns (), m)
      | Some d \<Rightarrow>
          if d = 0 then (Returns (), m)
          else if available t m then (Returns (), \<lparr>owner = t, depth = d\<rparr>)
          else (Blocks, m))"

text \<open>
  An operation on the object at address \<open>a\<close>; a call on an address that holds no object
  ends the process.
\<close>

definition on_mutex ::
  "(smutex \<Rightarrow> 'a outcome \<times> smutex) \<Rightarrow> addr \<Rightarrow> smutex world \<Rightarrow> 'a outcome \<times> smutex world" where
  "on_mutex f a w =
     (if a < length (heap w)
      then (case f (heap w ! a) of (r, m') \<Rightarrow> (r, w\<lparr>heap := (heap w)[a := m']\<rparr>))
      else (Crashes, w))"

text \<open>
  Modelled from the spec: the implementation of \<^verbatim>\<open>TVirtualMutex::Factory\<close>, pure
  virtual in the header. "Constructs a new Lock instance of the same backend kind." The
  new lock is unheld; every lock of the specification is recursive, so the flag changes
  nothing.
\<close>

definition spec_Factory :: "addr \<Rightarrow> bool \<Rightarrow> smutex world \<Rightarrow> ptr outcome \<times> smutex world" where
  "spec_Factory a recursive w =
     (if a < length (heap w)
      then (Returns (Some (length (heap w))), w\<lparr>heap := heap w @ [\<lparr>owner = 0, depth = 0\<rparr>]\<rparr>)
      else (Crashes, w))"

text \<open>
  Modelled from the spec: the concrete mutex class behind \<^verbatim>\<open>TVirtualMutex\<close>, as
  thread \<open>t\<close> calls it.
\<close>

definition spec_mutex :: "thread \<Rightarrow> (smutex, nat) TVirtualMutex" where
  "spec_mutex t =
     \<lparr>Lock = on_mutex (spec_Lock t),
      TryLock = on_mutex (spec_TryLock t),
      UnLock = on_mutex (spec_UnLock t),
      CleanUp = on_mutex (spec_CleanUp t),
      Factory = spec_Factory,
      Reset = on_mutex (spec_Reset t),
      Restore = (\<lambda>a s. on_mutex (spec_Restore t s) a)\<rparr>"

text \<open>
  A finite sequence of \<^verbatim>\<open>Lock()\<close> and \<^verbatim>\<open>UnLock()\<close> calls by one thread on
  one lock. The run has no result when a call does not return.
\<close>

datatype call = CLock | CUnLock

fun perform :: "thread \<Rightarrow> call \<Rightarrow> smutex \<Rightarrow> Int_t outcome \<times> smutex" where
  "perform t CLock m = spec_Lock t m"
| "perform t CUnLock m = spec_UnLock t m"

fun run_calls :: "thread \<Rightarrow> call list \<Rightarrow> smutex \<Rightarrow> smutex option" where
  "run_calls t [] m = Some m"
| "run_calls t (c # cs) m =
     (case perform t c m of
        (Returns s, m') \<Rightarrow> run_calls t cs m'
      | (Throws e, m') \<Rightarrow> None
      | (Blocks, m') \<Rightarrow> None
      | (Crashes, m') \<Rightarrow> None)"

text \<open>\<open>matched n cs\<close>: with \<open>n\<close> locks outstanding, no unlock in \<open>cs\<close> lacks a prior lock.\<close>

fun matched :: "nat \<Rightarrow> call list \<Rightarrow> bool" where
  "matched n [] = True"
| "matched n (CLock # cs) = matched (Suc n) cs"
| "matched n (CUnLock # cs) = (0 < n \<and> matched (n - 1) cs)"

section \<open>Properties of TLockGuard::UnLock\<close>

text \<open>
  C5. The explicit \<^verbatim>\<open>UnLock()\<close> of a guard that holds mutex \<open>a\<close> calls
  \<^verbatim>\<open>UnLock()\<close> on \<open>a\<close> once and hands back exactly what that call produced; on a
  guard that holds nothing it returns 0 and calls nothing. In both cases the guard's
  reference is null afterwards, so a destructor run or a second \<^verbatim>\<open>UnLock()\<close> after
  it performs no mutex operation (the second \<^verbatim>\<open>UnLock()\<close> returning 0).
\<close>

theorem TLockGuard_UnLock_status:
  "TLockGuard_UnLock V \<lparr>TLockGuard.fMutex = Some a\<rparr> (w, tr) =
     (fst (UnLock V a w), \<lparr>TLockGuard.fMutex = None\<rparr>, (snd (UnLock V a w), tr @ [EvUnLock a]))
   \<and> TLockGuard_UnLock V \<lparr>TLockGuard.fMutex = None\<rparr> c = (Returns 0, \<lparr>TLockGuard.fMutex = None\<rparr>, c)
   \<and> TLockGuard.fMutex (fst (snd (TLockGuard_UnLock V g c))) = None
   \<and> TLockGuard_dtor V (fst (snd (TLockGuard_UnLock V g c))) c' = (Returns (), c')
   \<and> TLockGuard_UnLock V (fst (snd (TLockGuard_UnLock V g c))) c'
       = (Returns 0, fst (snd (TLockGuard_UnLock V g c)), c')"
  by (cases g; cases "TLockGuard.fMutex g")
     (simp_all add: TLockGuard_UnLock_def TLockGuard_dtor_def call_UnLock_def Let_def
        split: prod.splits)

section \<open>Properties of the Lock contract\<close>

lemma spec_Reset_releases: "held_by t (snd (spec_Reset t m)) = 0"
  by (simp add: spec_Reset_def held_by_def)

lemma spec_Reset_Restore_smutex:
  "spec_Restore t (Some (held_by t m)) (snd (spec_Reset t m)) = (Returns (), m)"
  by (cases m) (simp add: spec_Reset_def spec_Restore_def held_by_def available_def)

text \<open>
  C3. On the lock of the specification, in any hold state and for any calling thread,
  \<^verbatim>\<open>Reset()\<close> returns a snapshot and leaves the caller holding nothing (the lock
  at depth 0, unless another thread holds it), and
  \<^verbatim>\<open>Restore()\<close> with that snapshot, called next, returns and leaves the lock in
  exactly the state it had before \<^verbatim>\<open>Reset()\<close>: same depth, same owner. The same
  holds through the virtual interface, for an object at any valid address.
\<close>

theorem Reset_Restore_round_trip:
  "then_do (spec_Reset t m) (spec_Restore t) = (Returns (), m)
   \<and> fst (spec_Reset t m) = Returns (Some (held_by t m))
   \<and> held_by t (snd (spec_Reset t m)) = 0
   \<and> (available t m \<longrightarrow> depth (snd (spec_Reset t m)) = 0)
   \<and> depth (snd (then_do (spec_Reset t m) (spec_Restore t))) = depth m
   \<and> (a < length (heap w) \<longrightarrow>
        then_do (Reset (spec_mutex t) a w) (Restore (spec_mutex t) a) = (Returns (), w))"
proof -
  have 1: "then_do (spec_Reset t m) (spec_Restore t) = (Returns (), m)" for m
    using spec_Reset_Restore_smutex [of t m] by (simp add: then_do_def spec_Reset_def)
  have 2: "then_do (Reset (spec_mutex t) a w) (Restore (spec_mutex t) a) = (Returns (), w)"
    if "a < length (heap w)"
    using that spec_Reset_Restore_smutex [of t "heap w ! a"]
    by (simp add: then_do_def spec_mutex_def on_mutex_def spec_Reset_def)
  show ?thesis
    using 1 2 by (simp add: spec_Reset_releases) (auto simp: spec_Reset_def available_def)
qed

theorem Reset_Restore_round_trip_witness:
  "then_do (spec_Reset 1 \<lparr>owner = 1, depth = 2\<rparr>) (spec_Restore 1)
     = (Returns (), \<lparr>owner = 1, depth = 2\<rparr>)
   \<and> spec_Reset 1 \<lparr>owner = 1, depth = 2\<rparr> = (Returns (Some 2), \<lparr>owner = 1, depth = 0\<rparr>)
   \<and> then_do
        (Reset (spec_mutex 1) 0
           \<lparr>heap = [\<lparr>owner = 1, depth = 2\<rparr>], gGlobalMutex = None, gvars = \<lambda>x. None\<rparr>)
        (Restore (spec_mutex 1) 0)
     = (Returns (), \<lparr>heap = [\<lparr>owner = 1, depth = 2\<rparr>], gGlobalMutex = None, gvars = \<lambda>x. None\<rparr>)"
  using Reset_Restore_round_trip
     [of 1 "\<lparr>owner = 1, depth = 2\<rparr>" 0
         "\<lparr>heap = [\<lparr>owner = 1, depth = 2\<rparr>], gGlobalMutex = None, gvars = \<lambda>x. None\<rparr>"]
  by (simp add: spec_Reset_def held_by_def)

lemma run_calls_invariant:
  "available t m \<Longrightarrow> matched (depth m) cs \<Longrightarrow>
   \<exists>m'. run_calls t cs m = Some m' \<and> available t m'
      \<and> int (depth m') = int (depth m) + int (count_list cs CLock) - int (count_list cs CUnLock)"
proof (induction cs arbitrary: m)
  case Nil
  then show ?case by simp
next
  case (Cons c cs)
  show ?case
  proof (cases c)
    case CLock
    let ?m = "\<lparr>owner = t, depth = Suc (depth m)\<rparr>"
    have "available t ?m" "matched (depth ?m) cs"
      using Cons.prems CLock by (simp_all add: available_def)
    from Cons.IH [OF this] show ?thesis
      using Cons.prems(1) CLock by (auto simp: spec_Lock_def)
  next
    case CUnLock
    then have pos: "0 < depth m" and rest: "matched (depth m - 1) cs"
      using Cons.prems by simp_all
    then have own: "owner m = t" using Cons.prems(1) by (simp add: available_def)
    let ?m = "m\<lparr>depth := depth m - 1\<rparr>"
    have "available t ?m" "matched (depth ?m) cs"
      using own rest by (simp_all add: available_def)
    from Cons.IH [OF this] show ?thesis
      using pos own CUnLock by (auto simp: spec_UnLock_def)
  qed
qed

lemma spec_TryLock_other:
  "available t m \<Longrightarrow> t' \<noteq> t \<Longrightarrow> (fst (spec_TryLock t' m) \<noteq> Returns 0) = (0 < depth m)"
  by (auto simp: spec_TryLock_def available_def)


text \<open>
  C4. On the lock of the specification, starting unheld, every finite sequence of
  \<^verbatim>\<open>Lock()\<close> and \<^verbatim>\<open>UnLock()\<close> calls by one thread in which no unlock lacks a
  prior lock runs to its end (no call blocks), the depth afterwards is the number of
  \<^verbatim>\<open>Lock()\<close> calls minus the number of \<^verbatim>\<open>UnLock()\<close> calls, and a
  \<^verbatim>\<open>TryLock()\<close> by any other thread fails exactly when that depth is positive.
\<close>

theorem depth_is_locks_minus_unlocks:
  assumes "depth m = 0" and "matched 0 cs"
  shows "\<exists>m'. run_calls t cs m = Some m'
           \<and> int (depth m') = int (count_list cs CLock) - int (count_list cs CUnLock)
           \<and> (\<forall>t'. t' \<noteq> t \<longrightarrow> (fst (spec_TryLock t' m') \<noteq> Returns 0) = (0 < depth m'))"
proof -
  have "available t m" "matched (depth m) cs"
    using assms by (simp_all add: available_def)
  from run_calls_invariant [OF this] obtain m' where
    m': "run_calls t cs m = Some m'" "available t m'"
        "int (depth m') = int (depth m) + int (count_list cs CLock) - int (count_list cs CUnLock)"
    by blast
  then show ?thesis
    using assms(1) spec_TryLock_other [of t m'] by auto
qed

theorem depth_is_locks_minus_unlocks_witness:
  "\<exists>m'. run_calls 1 [CLock, CLock, CUnLock] \<lparr>owner = 0, depth = 0\<rparr> = Some m'
      \<and> depth m' = 1 \<and> fst (spec_TryLock 2 m') = Returns 1"
  using depth_is_locks_minus_unlocks [of "\<lparr>owner = 0, depth = 0\<rparr>" "[CLock, CLock, CUnLock]" 1]
  by (simp add: spec_Lock_def spec_UnLock_def spec_TryLock_def available_def)

section \<open>Guards on a null pointer\<close>

lemma run_body_null_guard:
  "run_body V ss \<lparr>TLockGuard.fMutex = None\<rparr> (w, tr) = (r, g', c') \<Longrightarrow>
     g' = \<lparr>TLockGuard.fMutex = None\<rparr> \<and> snd c' = tr"
proof (induction ss arbitrary: w)
  case Nil
  then show ?case by auto
next
  case (Cons s ss)
  show ?case
  proof (cases s)
    case R__LOCKGUARD_UNLOCK
    with Cons show ?thesis by (simp add: TLockGuard_UnLock_def)
  next
    case (Code f)
    with Cons show ?thesis
      by (cases "f w"; cases "fst (f w)") (auto split: outcome.splits)
  qed
qed


text \<open>
  C6. A \<^verbatim>\<open>TLockGuard\<close> or \<^verbatim>\<open>TLockSuspend\<close> built on the null pointer calls
  no mutex operation and changes nothing: construction, destruction and the explicit
  \<^verbatim>\<open>UnLock()\<close> leave the program state and the log of calls as they were, and
  \<^verbatim>\<open>UnLock()\<close> returns 0. A whole guarded block logs no call, whatever its
  statements; a \<^verbatim>\<open>TLockSuspend\<close> block does exactly what its code does.
\<close>

theorem null_guard_no_operation:
  "TLockGuard_ctor V None c = (Returns \<lparr>TLockGuard.fMutex = None\<rparr>, c)
   \<and> TLockGuard_UnLock V \<lparr>TLockGuard.fMutex = None\<rparr> c = (Returns 0, \<lparr>TLockGuard.fMutex = None\<rparr>, c)
   \<and> TLockGuard_dtor V \<lparr>TLockGuard.fMutex = None\<rparr> c = (Returns (), c)
   \<and> snd (snd (TLockGuard_scope V None body (w, tr))) = tr
   \<and> TLockGuard_scope V None (replicate n R__LOCKGUARD_UNLOCK) c = (Returns (), c)
   \<and> TLockSuspend_ctor V None c = (Returns \<lparr>fMutex = None, fState = None\<rparr>, c)
   \<and> TLockSuspend_dtor V \<lparr>fMutex = None, fState = s\<rparr> c = (Returns (), c)
   \<and> TLockSuspend_scope V None code (w, tr) = (fst (code w), (snd (code w), tr))"
proof -
  have scope: "snd (snd (TLockGuard_scope V None body (w, tr))) = tr"
  proof -
    obtain r g' c' where rb: "run_body V body \<lparr>TLockGuard.fMutex = None\<rparr> (w, tr) = (r, g', c')"
      by (metis prod_cases3)
    from run_body_null_guard [OF rb] show ?thesis
      using rb by (simp add: TLockGuard_scope_def TLockGuard_ctor_def TLockGuard_dtor_def)
  qed
  have rep: "run_body V (replicate n R__LOCKGUARD_UNLOCK) \<lparr>TLockGuard.fMutex = None\<rparr> c
               = (Returns (), \<lparr>TLockGuard.fMutex = None\<rparr>, c)" for n
    by (induction n) (simp_all add: TLockGuard_UnLock_def)
  have susp: "TLockSuspend_scope V None code (w, tr) = (fst (code w), (snd (code w), tr))"
    by (cases "code w"; cases "fst (code w)")
       (simp_all add: TLockSuspend_scope_def TLockSuspend_ctor_def TLockSuspend_dtor_def)
  show ?thesis
    using scope susp
    by (simp add: TLockGuard_ctor_def TLockGuard_UnLock_def TLockGuard_dtor_def
          TLockGuard_scope_def rep TLockSuspend_ctor_def TLockSuspend_dtor_def)
qed


section \<open>The read/write-lock helpers\<close>

text \<open>
  C8. Each of the four read/write-lock helpers calls its operation
  (\<^verbatim>\<open>ReadLock\<close>, \<^verbatim>\<open>ReadUnLock\<close>, \<^verbatim>\<open>WriteLock\<close>,
  \<^verbatim>\<open>WriteUnLock\<close>) on the given lock, once, exactly when \<^verbatim>\<open>R__USE_IMT\<close> is
  compiled in and \<^verbatim>\<open>IsParTreeProcessingEnabled()\<close> is true; otherwise it calls
  nothing and leaves the program state as it was.
\<close>

theorem rwlock_helpers_gated:
  "R__RWLOCK_ACQUIRE_READ imt enabled rw (w, tr) =
     (if imt \<and> enabled w
      then (fst (ReadLock rw w), (snd (ReadLock rw w), tr @ [EvReadLock (rw_name rw)]))
      else (Returns (), (w, tr)))
   \<and> R__RWLOCK_RELEASE_READ imt enabled rw (w, tr) =
     (if imt \<and> enabled w
      then (fst (ReadUnLock rw w), (snd (ReadUnLock rw w), tr @ [EvReadUnLock (rw_name rw)]))
      else (Returns (), (w, tr)))
   \<and> R__RWLOCK_ACQUIRE_WRITE imt enabled rw (w, tr) =
     (if imt \<and> enabled w
      then (fst (WriteLock rw w), (snd (WriteLock rw w), tr @ [EvWriteLock (rw_name rw)]))
      else (Returns (), (w, tr)))
   \<and> R__RWLOCK_RELEASE_WRITE imt enabled rw (w, tr) =
     (if imt \<and> enabled w
      then (fst (WriteUnLock rw w), (snd (WriteUnLock rw w), tr @ [EvWriteUnLock (rw_name rw)]))
      else (Returns (), (w, tr)))"
  by (simp add: R__RWLOCK_ACQUIRE_READ_def R__RWLOCK_RELEASE_READ_def
        R__RWLOCK_ACQUIRE_WRITE_def R__RWLOCK_RELEASE_WRITE_def rw_call_def split: prod.splits)


section \<open>An exception out of the explicit UnLock\<close>

text \<open>
  C9. \<^verbatim>\<open>TLockGuard::UnLock()\<close> clears the guard's reference before it calls
  \<^verbatim>\<open>UnLock()\<close> on the mutex: when that call throws, the exception leaves the
  explicit \<^verbatim>\<open>UnLock()\<close> with the reference already null, the destructor then calls
  nothing, and the guarded block as a whole has called \<^verbatim>\<open>UnLock()\<close> on the mutex
  once.
\<close>

theorem UnLock_clears_before_call:
  assumes "Lock V a w0 = (Returns s, w)" and "UnLock V a w = (Throws e, w')"
  shows "TLockGuard_UnLock V \<lparr>TLockGuard.fMutex = Some a\<rparr> (w, tr)
           = (Throws e, \<lparr>TLockGuard.fMutex = None\<rparr>, (w', tr @ [EvUnLock a]))
         \<and> TLockGuard_dtor V \<lparr>TLockGuard.fMutex = None\<rparr> (w', tr @ [EvUnLock a])
           = (Returns (), (w', tr @ [EvUnLock a]))
         \<and> TLockGuard_scope V (Some a) [R__LOCKGUARD_UNLOCK] (w0, tr0)
           = (Throws e, (w', tr0 @ [EvLock a, EvUnLock a]))"
  using assms
  by (simp add: TLockGuard_UnLock_def TLockGuard_dtor_def call_UnLock_def
        TLockGuard_scope_def TLockGuard_ctor_def call_Lock_def)

theorem UnLock_clears_before_call_witness:
  "TLockGuard_scope ((spec_mutex 1)\<lparr>UnLock := \<lambda>a w. (Throws (Exception 7), w)\<rparr>) (Some 0)
       [R__LOCKGUARD_UNLOCK]
       (\<lparr>heap = [\<lparr>owner = 0, depth = 0\<rparr>], gGlobalMutex = None, gvars = \<lambda>x. None\<rparr>, [])
     = (Throws (Exception 7),
        (\<lparr>heap = [\<lparr>owner = 1, depth = 1\<rparr>], gGlobalMutex = None, gvars = \<lambda>x. None\<rparr>,
         [EvLock 0, EvUnLock 0]))"
  using UnLock_clears_before_call
     [of "(spec_mutex 1)\<lparr>UnLock := \<lambda>a w. (Throws (Exception 7), w)\<rparr>" 0
         "\<lparr>heap = [\<lparr>owner = 0, depth = 0\<rparr>], gGlobalMutex = None, gvars = \<lambda>x. None\<rparr>"
         0 "\<lparr>heap = [\<lparr>owner = 1, depth = 1\<rparr>], gGlobalMutex = None, gvars = \<lambda>x. None\<rparr>"
         "Exception 7"
         "\<lparr>heap = [\<lparr>owner = 1, depth = 1\<rparr>], gGlobalMutex = None, gvars = \<lambda>x. None\<rparr>"
         "[]" "[]"]
  by (simp add: spec_mutex_def on_mutex_def spec_Lock_def available_def)

section \<open>The guarded block\<close>

lemma run_body_unlocks_at_most_once:
  "run_body V ss g (w, tr) = (r, g', c') \<Longrightarrow>
     (TLockGuard.fMutex g' = TLockGuard.fMutex g \<and> snd c' = tr)
     \<or> (\<exists>a. TLockGuard.fMutex g = Some a \<and> TLockGuard.fMutex g' = None
            \<and> snd c' = tr @ [EvUnLock a])"
proof (induction ss arbitrary: g w tr)
  case Nil
  then show ?case by auto
next
  case (Cons s ss)
  show ?case
  proof (cases s)
    case (Code f)
    with Cons show ?thesis
      by (cases "f w"; cases "fst (f w)") (auto split: outcome.splits)
  next
    case R__LOCKGUARD_UNLOCK
    show ?thesis
    proof (cases "TLockGuard.fMutex g")
      case None
      with Cons.prems R__LOCKGUARD_UNLOCK
      have "run_body V ss g (w, tr) = (r, g', c')"
        by (simp add: TLockGuard_UnLock_def)
      from Cons.IH [OF this] show ?thesis .
    next
      case (Some a)
      obtain u w1 where u: "UnLock V a w = (u, w1)" by (cases "UnLock V a w")
      show ?thesis
      proof (cases u)
        case (Returns s')
        with Cons.prems R__LOCKGUARD_UNLOCK Some u
        have "run_body V ss (g\<lparr>TLockGuard.fMutex := None\<rparr>) (w1, tr @ [EvUnLock a]) = (r, g', c')"
          by (simp add: TLockGuard_UnLock_def call_UnLock_def)
        from Cons.IH [OF this] show ?thesis using Some by auto
      qed (use Cons.prems R__LOCKGUARD_UNLOCK Some u in
            \<open>auto simp: TLockGuard_UnLock_def call_UnLock_def\<close>)
    qed
  qed
qed

lemma TLockGuard_dtor_trace:
  "snd (snd (TLockGuard_dtor V g (w, tr))) =
     (case TLockGuard.fMutex g of None \<Rightarrow> tr | Some a \<Rightarrow> tr @ [EvUnLock a])"
  by (cases "TLockGuard.fMutex g")
     (auto simp: TLockGuard_dtor_def call_UnLock_def split: prod.splits outcome.splits)


text \<open>
  C1. A \<^verbatim>\<open>TLockGuard\<close> built on a non-null mutex \<open>a\<close> (the constructor's
  \<^verbatim>\<open>Lock()\<close> returns) has called \<^verbatim>\<open>Lock()\<close> on \<open>a\<close> exactly once when the
  guarded block is entered, and the block starts in the state that call left. Whatever
  the statements of the block, explicit \<^verbatim>\<open>UnLock()\<close> calls included, once control
  leaves the block, by return or by exception, the guard has called \<^verbatim>\<open>UnLock()\<close> on
  \<open>a\<close> exactly once; and in no run, left or not, is it called twice.
\<close>

theorem TLockGuard_locks_once_unlocks_once:
  assumes ctor: "Lock V a w = (Returns s, w1)"
      and body: "run_body V body \<lparr>TLockGuard.fMutex = Some a\<rparr> (w1, tr @ [EvLock a]) = (r, g', c2)"
  shows "TLockGuard_ctor V (Some a) (w, tr)
           = (Returns \<lparr>TLockGuard.fMutex = Some a\<rparr>, (w1, tr @ [EvLock a]))
         \<and> (leaves r \<longrightarrow>
              snd (snd (TLockGuard_scope V (Some a) body (w, tr))) = tr @ [EvLock a, EvUnLock a])
         \<and> (snd (snd (TLockGuard_scope V (Some a) body (w, tr))) = tr @ [EvLock a]
            \<or> snd (snd (TLockGuard_scope V (Some a) body (w, tr))) = tr @ [EvLock a, EvUnLock a])"
proof -
  have c: "TLockGuard_ctor V (Some a) (w, tr)
             = (Returns \<lparr>TLockGuard.fMutex = Some a\<rparr>, (w1, tr @ [EvLock a]))"
    using ctor by (simp add: TLockGuard_ctor_def call_Lock_def)
  obtain w2 tr2 where c2: "c2 = (w2, tr2)" by (cases c2)
  have sc: "TLockGuard_scope V (Some a) body (w, tr) =
          (if leaves r
           then (case TLockGuard_dtor V g' (w2, tr2) of (d, c3) \<Rightarrow> (after_dtor r d, c3))
           else (r, (w2, tr2)))"
    using c body c2 by (simp add: TLockGuard_scope_def)
  from run_body_unlocks_at_most_once [OF body]
  have alt: "(TLockGuard.fMutex g' = Some a \<and> tr2 = tr @ [EvLock a])
             \<or> (TLockGuard.fMutex g' = None \<and> tr2 = tr @ [EvLock a, EvUnLock a])"
    using c2 by auto
  have d: "snd (snd (TLockGuard_dtor V g' (w2, tr2))) = tr @ [EvLock a, EvUnLock a]"
    using alt by (auto simp: TLockGuard_dtor_trace)
  have "snd (snd (TLockGuard_scope V (Some a) body (w, tr))) =
          (if leaves r then tr @ [EvLock a, EvUnLock a] else tr2)"
    using d by (auto simp: sc split: prod.splits)
  then show ?thesis using c alt by auto
qed


theorem TLockGuard_locks_once_unlocks_once_witness:
  "TLockGuard_ctor (spec_mutex 1) (Some 0)
       (\<lparr>heap = [\<lparr>owner = 0, depth = 0\<rparr>], gGlobalMutex = None, gvars = \<lambda>x. None\<rparr>, [])
     = (Returns \<lparr>TLockGuard.fMutex = Some 0\<rparr>,
        (\<lparr>heap = [\<lparr>owner = 1, depth = 1\<rparr>], gGlobalMutex = None, gvars = \<lambda>x. None\<rparr>,
         [EvLock 0]))
   \<and> snd (snd (TLockGuard_scope (spec_mutex 1) (Some 0)
         [Code (\<lambda>w. (Throws (Exception 3), w)), R__LOCKGUARD_UNLOCK]
         (\<lparr>heap = [\<lparr>owner = 0, depth = 0\<rparr>], gGlobalMutex = None, gvars = \<lambda>x. None\<rparr>, [])))
     = [EvLock 0, EvUnLock 0]"
  using TLockGuard_locks_once_unlocks_once
     [of "spec_mutex 1" 0
         "\<lparr>heap = [\<lparr>owner = 0, depth = 0\<rparr>], gGlobalMutex = None, gvars = \<lambda>x. None\<rparr>"
         0 "\<lparr>heap = [\<lparr>owner = 1, depth = 1\<rparr>], gGlobalMutex = None, gvars = \<lambda>x. None\<rparr>"
         "[Code (\<lambda>w. (Throws (Exception 3), w)), R__LOCKGUARD_UNLOCK]" "[]"
         "Throws (Exception 3)" "\<lparr>TLockGuard.fMutex = Some 0\<rparr>"
         "(\<lparr>heap = [\<lparr>owner = 1, depth = 1\<rparr>], gGlobalMutex = None, gvars = \<lambda>x. None\<rparr>,
           [EvLock 0])"]
  by (simp add: spec_mutex_def on_mutex_def spec_Lock_def available_def)

section \<open>The suspended block\<close>

lemma spec_Restore_unheld:
  "depth m = 0 \<Longrightarrow>
     fst (spec_Restore t (Some d) m) = Returns ()
     \<and> held_by t (snd (spec_Restore t (Some d) m)) = d
     \<and> depth (snd (spec_Restore t (Some d) m)) = d"
  by (simp add: spec_Restore_def available_def held_by_def)


text \<open>
  C2. A \<^verbatim>\<open>TLockSuspend\<close> built on a non-null mutex \<open>a\<close> calls \<^verbatim>\<open>Reset()\<close> on
  \<open>a\<close> once and stores the snapshot it returns; when control leaves the block, by return
  or by exception, the destructor calls \<^verbatim>\<open>Restore()\<close> on \<open>a\<close> once, with that
  snapshot, and the guard calls nothing in between. On the lock of the specification the
  caller holds nothing once the guard is built (the lock is at depth 0, unless another
  thread holds it), and, when the block leaves the lock unheld, the destructor returns
  with the lock held by the caller to the depth the caller held it before construction.
\<close>

theorem TLockSuspend_resets_and_restores:
  "(Reset V a w = (Returns snap, w1) \<and> body w1 = (r, w2) \<longrightarrow>
      TLockSuspend_ctor V (Some a) (w, tr)
        = (Returns \<lparr>fMutex = Some a, fState = snap\<rparr>, (w1, tr @ [EvReset a]))
      \<and> (leaves r \<longrightarrow>
           TLockSuspend_scope V (Some a) body (w, tr)
             = (after_dtor r (fst (TLockSuspend_dtor V \<lparr>fMutex = Some a, fState = snap\<rparr>
                                     (w2, tr @ [EvReset a]))),
                (snd (Restore V a snap w2), tr @ [EvReset a, EvRestore a snap])))
      \<and> (\<not> leaves r \<longrightarrow>
           TLockSuspend_scope V (Some a) body (w, tr) = (r, (w2, tr @ [EvReset a]))))
   \<and> (a < length (heap ws) \<and> code (snd (Reset (spec_mutex t) a ws)) = (rs, ws2) \<and> leaves rs
        \<and> a < length (heap ws2) \<and> depth (heap ws2 ! a) = 0 \<longrightarrow>
      held_by t (heap (snd (Reset (spec_mutex t) a ws)) ! a) = 0
      \<and> (available t (heap ws ! a) \<longrightarrow> depth (heap (snd (Reset (spec_mutex t) a ws)) ! a) = 0)
      \<and> fst (TLockSuspend_scope (spec_mutex t) (Some a) code (ws, trs)) = rs
      \<and> held_by t (heap (fst (snd (TLockSuspend_scope (spec_mutex t) (Some a) code (ws, trs)))) ! a)
          = held_by t (heap ws ! a)
      \<and> depth (heap (fst (snd (TLockSuspend_scope (spec_mutex t) (Some a) code (ws, trs)))) ! a)
          = held_by t (heap ws ! a))"
proof -
  have gen: "TLockSuspend_ctor V (Some a) (w, tr)
        = (Returns \<lparr>fMutex = Some a, fState = snap\<rparr>, (w1, tr @ [EvReset a]))
      \<and> (leaves r \<longrightarrow>
           TLockSuspend_scope V (Some a) body (w, tr)
             = (after_dtor r (fst (TLockSuspend_dtor V \<lparr>fMutex = Some a, fState = snap\<rparr>
                                     (w2, tr @ [EvReset a]))),
                (snd (Restore V a snap w2), tr @ [EvReset a, EvRestore a snap])))
      \<and> (\<not> leaves r \<longrightarrow>
           TLockSuspend_scope V (Some a) body (w, tr) = (r, (w2, tr @ [EvReset a])))"
    if "Reset V a w = (Returns snap, w1)" "body w1 = (r, w2)"
    for V :: "('m, 'st) TVirtualMutex" and a w snap w1 body r w2 tr
  proof -
    have c: "TLockSuspend_ctor V (Some a) (w, tr)
        = (Returns \<lparr>fMutex = Some a, fState = snap\<rparr>, (w1, tr @ [EvReset a]))"
      using that(1) by (simp add: TLockSuspend_ctor_def call_Reset_def)
    have d: "snd (TLockSuspend_dtor V \<lparr>fMutex = Some a, fState = snap\<rparr> (w2, tr @ [EvReset a]))
          = (snd (Restore V a snap w2), tr @ [EvReset a, EvRestore a snap])"
      by (cases "Restore V a snap w2"; cases "fst (Restore V a snap w2)")
         (simp_all add: TLockSuspend_dtor_def call_Restore_def)
    show ?thesis
      using c d that(2) by (auto simp: TLockSuspend_scope_def split: prod.splits)
  qed
  have spec: "held_by t (heap (snd (Reset (spec_mutex t) a ws)) ! a) = 0
      \<and> (available t (heap ws ! a) \<longrightarrow> depth (heap (snd (Reset (spec_mutex t) a ws)) ! a) = 0)
      \<and> fst (TLockSuspend_scope (spec_mutex t) (Some a) code (ws, trs)) = rs
      \<and> held_by t (heap (fst (snd (TLockSuspend_scope (spec_mutex t) (Some a) code (ws, trs)))) ! a)
          = held_by t (heap ws ! a)
      \<and> depth (heap (fst (snd (TLockSuspend_scope (spec_mutex t) (Some a) code (ws, trs)))) ! a)
          = held_by t (heap ws ! a)"
    if h: "a < length (heap ws)" "code (snd (Reset (spec_mutex t) a ws)) = (rs, ws2)" "leaves rs"
       "a < length (heap ws2)" "depth (heap ws2 ! a) = 0"
  proof -
    let ?d = "held_by t (heap ws ! a)"
    obtain w1 where r: "Reset (spec_mutex t) a ws = (Returns (Some ?d), w1)"
      using h(1) by (simp add: spec_mutex_def on_mutex_def spec_Reset_def)
    have rel: "held_by t (heap w1 ! a) = 0"
      using r h(1) spec_Reset_releases [of t "heap ws ! a"]
      by (auto simp: spec_mutex_def on_mutex_def split: prod.splits)
    have rel0: "depth (heap w1 ! a) = 0" if "available t (heap ws ! a)"
      using r h(1) that
      by (auto simp: spec_mutex_def on_mutex_def spec_Reset_def available_def)
    have b: "code w1 = (rs, ws2)" using h(2) r by simp
    from spec_Restore_unheld [OF h(5), of t ?d]
    have rst: "fst (Restore (spec_mutex t) a (Some ?d) ws2) = Returns ()"
      "held_by t (heap (snd (Restore (spec_mutex t) a (Some ?d) ws2)) ! a) = ?d"
      "depth (heap (snd (Restore (spec_mutex t) a (Some ?d) ws2)) ! a) = ?d"
      using h(4) by (auto simp: spec_mutex_def on_mutex_def split: prod.splits)
    have dt: "fst (TLockSuspend_dtor (spec_mutex t) \<lparr>fMutex = Some a, fState = Some ?d\<rparr>
                 (ws2, trs @ [EvReset a])) = Returns ()"
      using rst(1)
      by (cases "Restore (spec_mutex t) a (Some ?d) ws2")
         (simp add: TLockSuspend_dtor_def call_Restore_def)
    from gen [of "spec_mutex t" a ws "Some ?d" w1 code rs ws2 trs, OF r b] h(3)
    have "TLockSuspend_scope (spec_mutex t) (Some a) code (ws, trs)
            = (rs, (snd (Restore (spec_mutex t) a (Some ?d) ws2),
                    trs @ [EvReset a, EvRestore a (Some ?d)]))"
      using dt by (cases rs) simp_all
    then show ?thesis using rel rel0 rst(2,3) r by simp
  qed
  show ?thesis using gen spec by blast
qed

theorem TLockSuspend_resets_and_restores_witness:
  "TLockSuspend_scope (spec_mutex 1) (Some 0)
       (\<lambda>w. then_do (TryLock (spec_mutex 2) 0 w) (\<lambda>s w'.
            then_do (UnLock (spec_mutex 2) 0 w') (\<lambda>s w''. (Returns (), w''))))
       (\<lparr>heap = [\<lparr>owner = 1, depth = 2\<rparr>], gGlobalMutex = None, gvars = \<lambda>x. None\<rparr>, [])
     = (Returns (),
        (\<lparr>heap = [\<lparr>owner = 1, depth = 2\<rparr>], gGlobalMutex = None, gvars = \<lambda>x. None\<rparr>,
         [EvReset 0, EvRestore 0 (Some 2)]))
   \<and> TLockSuspend_ctor (spec_mutex 1) (Some 0)
       (\<lparr>heap = [\<lparr>owner = 1, depth = 2\<rparr>], gGlobalMutex = None, gvars = \<lambda>x. None\<rparr>, [])
     = (Returns \<lparr>fMutex = Some 0, fState = Some 2\<rparr>,
        (\<lparr>heap = [\<lparr>owner = 1, depth = 0\<rparr>], gGlobalMutex = None, gvars = \<lambda>x. None\<rparr>,
         [EvReset 0]))"
  using TLockSuspend_resets_and_restores
     [where V = "spec_mutex 1" and a = 0
        and w = "\<lparr>heap = [\<lparr>owner = 1, depth = 2\<rparr>], gGlobalMutex = None, gvars = \<lambda>x. None\<rparr>"
        and snap = "Some 2"
        and ?w1.0 = "\<lparr>heap = [\<lparr>owner = 1, depth = 0\<rparr>], gGlobalMutex = None, gvars = \<lambda>x. None\<rparr>"
        and body = "\<lambda>w. then_do (TryLock (spec_mutex 2) 0 w) (\<lambda>s w'.
            then_do (UnLock (spec_mutex 2) 0 w') (\<lambda>s w''. (Returns (), w'')))"
        and r = "Returns ()"
        and ?w2.0 = "\<lparr>heap = [\<lparr>owner = 2, depth = 0\<rparr>], gGlobalMutex = None, gvars = \<lambda>x. None\<rparr>"
        and tr = "[]"
        and ws = "\<lparr>heap = [\<lparr>owner = 1, depth = 2\<rparr>], gGlobalMutex = None, gvars = \<lambda>x. None\<rparr>"
        and t = 1
        and code = "\<lambda>w. then_do (TryLock (spec_mutex 2) 0 w) (\<lambda>s w'.
            then_do (UnLock (spec_mutex 2) 0 w') (\<lambda>s w''. (Returns (), w'')))"
        and rs = "Returns ()"
        and ?ws2.0 = "\<lparr>heap = [\<lparr>owner = 2, depth = 0\<rparr>], gGlobalMutex = None, gvars = \<lambda>x. None\<rparr>"
        and trs = "[]"]
  by (simp add: spec_mutex_def on_mutex_def spec_Reset_def spec_Restore_def spec_TryLock_def
        spec_UnLock_def held_by_def available_def then_do_def TLockSuspend_dtor_def
        call_Restore_def)

section \<open>What the guards pass on\<close>

lemma TLockGuard_scope_log:
  assumes "Lock V a w = (Returns s, w1)"
      and "run_body V body \<lparr>TLockGuard.fMutex = Some a\<rparr> (w1, tr @ [EvLock a]) = (r, g', c2)"
      and "leaves r"
  shows "snd (snd (TLockGuard_scope V (Some a) body (w, tr))) = tr @ [EvLock a, EvUnLock a]"
proof -
  obtain w2 tr2 where c2: "c2 = (w2, tr2)" by (cases c2)
  from run_body_unlocks_at_most_once [OF assms(2)]
  have "(TLockGuard.fMutex g' = Some a \<and> tr2 = tr @ [EvLock a])
          \<or> (TLockGuard.fMutex g' = None \<and> tr2 = tr @ [EvLock a, EvUnLock a])"
    using c2 by auto
  then have "snd (snd (TLockGuard_dtor V g' (w2, tr2))) = tr @ [EvLock a, EvUnLock a]"
    by (auto simp: TLockGuard_dtor_trace)
  then show ?thesis
    using assms c2
    by (auto simp: TLockGuard_scope_def TLockGuard_ctor_def call_Lock_def split: prod.splits)
qed

lemma TLockSuspend_scope_log:
  assumes "Reset V a w = (Returns snap, w1)" and "code w1 = (r, w2)" and "leaves r"
  shows "snd (snd (TLockSuspend_scope V (Some a) code (w, tr)))
           = tr @ [EvReset a, EvRestore a snap]"
proof -
  have "snd (snd (TLockSuspend_dtor V \<lparr>fMutex = Some a, fState = snap\<rparr> (w2, tr @ [EvReset a])))
          = tr @ [EvReset a, EvRestore a snap]"
    by (cases "Restore V a snap w2"; cases "fst (Restore V a snap w2)")
       (simp_all add: TLockSuspend_dtor_def call_Restore_def)
  then show ?thesis
    using assms
    by (auto simp: TLockSuspend_scope_def TLockSuspend_ctor_def call_Reset_def split: prod.splits)
qed


text \<open>
  The constructor of \<^verbatim>\<open>TLockGuard\<close> has no way to hand back the status of
  \<^verbatim>\<open>Lock()\<close>, and the destructor none for that of \<^verbatim>\<open>UnLock()\<close>: a mutex
  that locks and unlocks like the lock of the specification but reports status 9 gives
  the caller exactly what the one reporting 0 gives.
\<close>

theorem status_swallowed_counterexample:
  "fst (Lock ((spec_mutex 1)\<lparr>Lock := \<lambda>a w. (Returns 9, snd (Lock (spec_mutex 1) a w)),
                              UnLock := \<lambda>a w. (Returns 9, snd (UnLock (spec_mutex 1) a w))\<rparr>) 0
          \<lparr>heap = [\<lparr>owner = 0, depth = 0\<rparr>], gGlobalMutex = None, gvars = \<lambda>x. None\<rparr>)
     = Returns 9
   \<and> fst (Lock (spec_mutex 1) 0
          \<lparr>heap = [\<lparr>owner = 0, depth = 0\<rparr>], gGlobalMutex = None, gvars = \<lambda>x. None\<rparr>)
     = Returns 0
   \<and> TLockGuard_ctor ((spec_mutex 1)\<lparr>Lock := \<lambda>a w. (Returns 9, snd (Lock (spec_mutex 1) a w)),
                              UnLock := \<lambda>a w. (Returns 9, snd (UnLock (spec_mutex 1) a w))\<rparr>)
        (Some 0)
        (\<lparr>heap = [\<lparr>owner = 0, depth = 0\<rparr>], gGlobalMutex = None, gvars = \<lambda>x. None\<rparr>, [])
     = TLockGuard_ctor (spec_mutex 1) (Some 0)
        (\<lparr>heap = [\<lparr>owner = 0, depth = 0\<rparr>], gGlobalMutex = None, gvars = \<lambda>x. None\<rparr>, [])
   \<and> TLockGuard_scope ((spec_mutex 1)\<lparr>Lock := \<lambda>a w. (Returns 9, snd (Lock (spec_mutex 1) a w)),
                              UnLock := \<lambda>a w. (Returns 9, snd (UnLock (spec_mutex 1) a w))\<rparr>)
        (Some 0) []
        (\<lparr>heap = [\<lparr>owner = 0, depth = 0\<rparr>], gGlobalMutex = None, gvars = \<lambda>x. None\<rparr>, [])
     = TLockGuard_scope (spec_mutex 1) (Some 0) []
        (\<lparr>heap = [\<lparr>owner = 0, depth = 0\<rparr>], gGlobalMutex = None, gvars = \<lambda>x. None\<rparr>, [])"
  by (simp add: spec_mutex_def on_mutex_def spec_Lock_def spec_UnLock_def available_def
        TLockGuard_ctor_def TLockGuard_scope_def TLockGuard_dtor_def call_Lock_def call_UnLock_def)


text \<open>
  C7, as amended. The explicit \<^verbatim>\<open>TLockGuard::UnLock()\<close> hands back whatever the
  mutex's \<^verbatim>\<open>UnLock()\<close> produced, status or exception, unchanged. An exception out of
  \<^verbatim>\<open>Lock()\<close> or \<^verbatim>\<open>Reset()\<close> in a constructor leaves the constructor, and
  the block, unchanged. A status returned by \<^verbatim>\<open>Lock()\<close> in the constructor or by
  \<^verbatim>\<open>UnLock()\<close> in the destructor is dropped. Once control leaves the protected
  section, by return or by exception, the guard has called \<^verbatim>\<open>UnLock()\<close>,
  respectively \<^verbatim>\<open>Restore()\<close> with the stored snapshot, exactly once.
\<close>

theorem guards_pass_on_what_they_can:
  "fst (TLockGuard_UnLock V \<lparr>TLockGuard.fMutex = Some a\<rparr> (w, tr)) = fst (UnLock V a w)
   \<and> (fst (Lock V' a w) = Throws e \<longrightarrow>
        fst (TLockGuard_ctor V' (Some a) (w, tr)) = Throws e
        \<and> fst (TLockGuard_scope V' (Some a) body (w, tr)) = Throws e)
   \<and> (fst (Reset V' a w) = Throws e' \<longrightarrow>
        fst (TLockSuspend_ctor V' (Some a) (w, tr)) = Throws e'
        \<and> fst (TLockSuspend_scope V' (Some a) code (w, tr)) = Throws e')
   \<and> (fst (Lock V a w) = Returns s \<longrightarrow>
        fst (TLockGuard_ctor V (Some a) (w, tr)) = Returns \<lparr>TLockGuard.fMutex = Some a\<rparr>)
   \<and> (fst (UnLock V a w) = Returns s' \<longrightarrow>
        fst (TLockGuard_dtor V \<lparr>TLockGuard.fMutex = Some a\<rparr> (w, tr)) = Returns ())
   \<and> (Lock V a w = (Returns s, w1)
        \<and> run_body V body \<lparr>TLockGuard.fMutex = Some a\<rparr> (w1, tr @ [EvLock a]) = (r, g', c2)
        \<and> leaves r \<longrightarrow>
        snd (snd (TLockGuard_scope V (Some a) body (w, tr))) = tr @ [EvLock a, EvUnLock a])
   \<and> (Reset V a w = (Returns snap, wr) \<and> code wr = (rc, w2) \<and> leaves rc \<longrightarrow>
        snd (snd (TLockSuspend_scope V (Some a) code (w, tr)))
          = tr @ [EvReset a, EvRestore a snap])"
proof -
  have 1: "fst (TLockGuard_UnLock V \<lparr>TLockGuard.fMutex = Some a\<rparr> (w, tr)) = fst (UnLock V a w)"
    by (simp add: TLockGuard_UnLock_def call_UnLock_def split: prod.splits)
  have 2: "fst (TLockGuard_ctor V' (Some a) (w, tr)) = Throws e
        \<and> fst (TLockGuard_scope V' (Some a) body (w, tr)) = Throws e"
    if "fst (Lock V' a w) = Throws e"
    using that by (cases "Lock V' a w")
      (simp add: TLockGuard_ctor_def TLockGuard_scope_def call_Lock_def)
  have 3: "fst (TLockSuspend_ctor V' (Some a) (w, tr)) = Throws e'
        \<and> fst (TLockSuspend_scope V' (Some a) code (w, tr)) = Throws e'"
    if "fst (Reset V' a w) = Throws e'"
    using that by (cases "Reset V' a w")
      (simp add: TLockSuspend_ctor_def TLockSuspend_scope_def call_Reset_def)
  have 4: "fst (TLockGuard_ctor V (Some a) (w, tr)) = Returns \<lparr>TLockGuard.fMutex = Some a\<rparr>"
    if "fst (Lock V a w) = Returns s"
    using that by (cases "Lock V a w") (simp add: TLockGuard_ctor_def call_Lock_def)
  have 5: "fst (TLockGuard_dtor V \<lparr>TLockGuard.fMutex = Some a\<rparr> (w, tr)) = Returns ()"
    if "fst (UnLock V a w) = Returns s'"
    using that by (cases "UnLock V a w") (simp add: TLockGuard_dtor_def call_UnLock_def)
  show ?thesis
    using 1 2 3 4 5 TLockGuard_scope_log [of V a w s w1 body tr r g' c2]
      TLockSuspend_scope_log [of V a w snap wr code rc w2 tr]
    by blast
qed

theorem guards_pass_on_what_they_can_witness:
  "fst (TLockGuard_UnLock (spec_mutex 1) \<lparr>TLockGuard.fMutex = Some 0\<rparr>
          (\<lparr>heap = [\<lparr>owner = 1, depth = 1\<rparr>], gGlobalMutex = None, gvars = \<lambda>x. None\<rparr>, []))
     = Returns 0
   \<and> fst (TLockGuard_scope ((spec_mutex 1)\<lparr>Lock := \<lambda>a w. (Throws (Exception 5), w),
                                            Reset := \<lambda>a w. (Throws (Exception 6), w)\<rparr>)
            (Some 0) [Code (\<lambda>w. (Returns (), w))]
            (\<lparr>heap = [\<lparr>owner = 1, depth = 1\<rparr>], gGlobalMutex = None, gvars = \<lambda>x. None\<rparr>, []))
     = Throws (Exception 5)
   \<and> fst (TLockSuspend_scope ((spec_mutex 1)\<lparr>Lock := \<lambda>a w. (Throws (Exception 5), w),
                                              Reset := \<lambda>a w. (Throws (Exception 6), w)\<rparr>)
            (Some 0) (\<lambda>w. (Throws (Exception 3), w))
            (\<lparr>heap = [\<lparr>owner = 1, depth = 1\<rparr>], gGlobalMutex = None, gvars = \<lambda>x. None\<rparr>, []))
     = Throws (Exception 6)
   \<and> snd (snd (TLockGuard_scope (spec_mutex 1) (Some 0) [Code (\<lambda>w. (Returns (), w))]
            (\<lparr>heap = [\<lparr>owner = 1, depth = 1\<rparr>], gGlobalMutex = None, gvars = \<lambda>x. None\<rparr>, [])))
     = [EvLock 0, EvUnLock 0]
   \<and> snd (snd (TLockSuspend_scope (spec_mutex 1) (Some 0) (\<lambda>w. (Throws (Exception 3), w))
            (\<lparr>heap = [\<lparr>owner = 1, depth = 1\<rparr>], gGlobalMutex = None, gvars = \<lambda>x. None\<rparr>, [])))
     = [EvReset 0, EvRestore 0 (Some 1)]"
  using guards_pass_on_what_they_can
     [where V = "spec_mutex 1"
        and V' = "(spec_mutex 1)\<lparr>Lock := \<lambda>a w. (Throws (Exception 5), w),
                                  Reset := \<lambda>a w. (Throws (Exception 6), w)\<rparr>"
        and a = 0
        and w = "\<lparr>heap = [\<lparr>owner = 1, depth = 1\<rparr>], gGlobalMutex = None, gvars = \<lambda>x. None\<rparr>"
        and tr = "[]" and e = "Exception 5" and e' = "Exception 6"
        and body = "[Code (\<lambda>w. (Returns (), w))]"
        and code = "\<lambda>w. (Throws (Exception 3), w)"
        and s = 0 and s' = 0
        and ?w1.0 = "\<lparr>heap = [\<lparr>owner = 1, depth = 2\<rparr>], gGlobalMutex = None, gvars = \<lambda>x. None\<rparr>"
        and r = "Returns ()" and g' = "\<lparr>TLockGuard.fMutex = Some 0\<rparr>"
        and ?c2.0 = "(\<lparr>heap = [\<lparr>owner = 1, depth = 2\<rparr>], gGlobalMutex = None, gvars = \<lambda>x. None\<rparr>,
                      [EvLock 0])"
        and snap = "Some 1"
        and wr = "\<lparr>heap = [\<lparr>owner = 1, depth = 0\<rparr>], gGlobalMutex = None, gvars = \<lambda>x. None\<rparr>"
        and rc = "Throws (Exception 3)"
        and ?w2.0 = "\<lparr>heap = [\<lparr>owner = 1, depth = 0\<rparr>], gGlobalMutex = None, gvars = \<lambda>x. None\<rparr>"]
  by (simp add: spec_mutex_def on_mutex_def spec_Lock_def spec_UnLock_def spec_Reset_def
        held_by_def available_def)


section \<open>R__LOCKGUARD2\<close>

text \<open>
  C10. In a build with thread support, \<^verbatim>\<open>R__LOCKGUARD2(mutex)\<close> run with
  \<^verbatim>\<open>gGlobalMutex\<close> non-null and \<^verbatim>\<open>mutex\<close> null calls
  \<^verbatim>\<open>gGlobalMutex->Lock()\<close> and reads \<^verbatim>\<open>mutex\<close> again. If it is still null,
  the macro calls \<^verbatim>\<open>gGlobalMutex->Factory(kTRUE)\<close>, assigns the result to
  \<^verbatim>\<open>mutex\<close>, and calls \<^verbatim>\<open>gGlobalMutex->UnLock()\<close>; if it is no longer
  null, \<^verbatim>\<open>Factory\<close> is not called and only \<^verbatim>\<open>UnLock()\<close> follows. Only then
  is the \<^verbatim>\<open>TLockGuard\<close> built, on the value \<^verbatim>\<open>mutex\<close> then has: when that is
  the new mutex \<open>m\<close>, the calls are, in order, \<^verbatim>\<open>Lock\<close>, \<^verbatim>\<open>Factory(kTRUE)\<close>
  and \<^verbatim>\<open>UnLock\<close> on the global mutex and \<^verbatim>\<open>Lock\<close> on \<open>m\<close>. (All calls are
  taken to return, and \<^verbatim>\<open>gGlobalMutex\<close> to stay as it is.)
\<close>

theorem R__LOCKGUARD2_creates_under_global_lock:
  assumes "gGlobalMutex w = Some g" and "gvars w mutex = None"
      and "Lock V g w = (Returns s1, w1)" and "gGlobalMutex w1 = Some g"
  shows "(gvars w1 mutex = None \<and> Factory V g True w1 = (Returns p, w2)
            \<and> gGlobalMutex w2 = Some g
            \<and> UnLock V g (w2\<lparr>gvars := (gvars w2)(mutex := p)\<rparr>) = (Returns s3, w3) \<longrightarrow>
          R__LOCKGUARD2 True V mutex (w, tr)
            = R__LOCKGUARD True V (gvars w3 mutex)
                (w3, tr @ [EvLock g, EvFactory g True, EvUnLock g])
          \<and> (gvars w3 mutex = Some m \<and> Lock V m w3 = (Returns s4, w4) \<longrightarrow>
               R__LOCKGUARD2 True V mutex (w, tr)
                 = (Returns (Some \<lparr>TLockGuard.fMutex = Some m\<rparr>),
                    (w4, tr @ [EvLock g, EvFactory g True, EvUnLock g, EvLock m]))))
         \<and> (gvars w1 mutex \<noteq> None \<and> UnLock V g w1 = (Returns s3', w3') \<longrightarrow>
             R__LOCKGUARD2 True V mutex (w, tr)
               = R__LOCKGUARD True V (gvars w3' mutex) (w3', tr @ [EvLock g, EvUnLock g]))"
  using assms
  by (auto simp: R__LOCKGUARD2_def R__LOCKGUARD_def then_do_def via_def assign_def
        call_Lock_def call_Factory_def call_UnLock_def TLockGuard_ctor_def)

theorem R__LOCKGUARD2_creates_under_global_lock_witness:
  "R__LOCKGUARD2 True (spec_mutex 1) ''gROOTMutex''
       (\<lparr>heap = [\<lparr>owner = 0, depth = 0\<rparr>], gGlobalMutex = Some 0, gvars = \<lambda>x. None\<rparr>, [])
     = (Returns (Some \<lparr>TLockGuard.fMutex = Some 1\<rparr>),
        (\<lparr>heap = [\<lparr>owner = 1, depth = 0\<rparr>, \<lparr>owner = 1, depth = 1\<rparr>], gGlobalMutex = Some 0,
          gvars = (\<lambda>x. None)(''gROOTMutex'' := Some 1)\<rparr>,
         [EvLock 0, EvFactory 0 True, EvUnLock 0, EvLock 1]))"
  using R__LOCKGUARD2_creates_under_global_lock
     [where V = "spec_mutex 1" and g = 0 and mutex = "''gROOTMutex''"
        and w = "\<lparr>heap = [\<lparr>owner = 0, depth = 0\<rparr>], gGlobalMutex = Some 0, gvars = \<lambda>x. None\<rparr>"
        and ?s1.0 = 0
        and ?w1.0 = "\<lparr>heap = [\<lparr>owner = 1, depth = 1\<rparr>], gGlobalMutex = Some 0, gvars = \<lambda>x. None\<rparr>"
        and p = "Some 1"
        and ?w2.0 = "\<lparr>heap = [\<lparr>owner = 1, depth = 1\<rparr>, \<lparr>owner = 0, depth = 0\<rparr>],
                      gGlobalMutex = Some 0, gvars = \<lambda>x. None\<rparr>"
        and ?s3.0 = 0
        and ?w3.0 = "\<lparr>heap = [\<lparr>owner = 1, depth = 0\<rparr>, \<lparr>owner = 0, depth = 0\<rparr>],
                      gGlobalMutex = Some 0, gvars = (\<lambda>x. None)(''gROOTMutex'' := Some 1)\<rparr>"
        and m = 1 and ?s4.0 = 0
        and ?w4.0 = "\<lparr>heap = [\<lparr>owner = 1, depth = 0\<rparr>, \<lparr>owner = 1, depth = 1\<rparr>],
                      gGlobalMutex = Some 0, gvars = (\<lambda>x. None)(''gROOTMutex'' := Some 1)\<rparr>"
        and tr = "[]"]
  by (auto simp: spec_mutex_def on_mutex_def spec_Lock_def spec_UnLock_def spec_Factory_def
        available_def)

end
